theory Spec2Isabelle
  imports Main
begin

section \<open>ZKExactGeoPointCircuitProof: a proof wrapper bound to a claimed ZKGeoPoint\<close>

text \<open>
  A shallow embedding of \<^verbatim>\<open>src/contracts/src/api/proofs/ZKExactGeoPointCircuitProof.ts\<close>.
  Methods that throw return \<open>Inl\<close> of the error; methods that call an external
  collaborator (the o1js proof object, the ZKGeoPoint model, the circuit, the console)
  append an event to a log carried in the state, so that the order and the number of those
  calls can be stated. The log plays the part of a call-counting test double.
\<close>

subsection \<open>Data\<close>

text \<open>An o1js \<^verbatim>\<open>Field\<close> element, by its canonical representative.\<close>

type_synonym Field = nat

text \<open>\<^verbatim>\<open>GeoPointCommitment\<close>, the public output of the circuit; only \<^verbatim>\<open>geoPointHash\<close> is read.\<close>

record GeoPointCommitment =
  geoPointHash :: Field

text \<open>
  \<^verbatim>\<open>ExactGeoPointCircuitProof\<close>, the opaque o1js proof object: its public output and the
  rest of it (the proof string), which this layer never inspects.
\<close>

record ExactGeoPointCircuitProof =
  publicOutput :: GeoPointCommitment
  proofData :: string

text \<open>
  The two fields of the class (lines 21-22). The field \<^verbatim>\<open>proof\<close> is named
  \<open>proof_field\<close>. The type \<open>'g\<close> stands for \<^verbatim>\<open>ZKGeoPoint\<close>, whose declaration is
  outside this file.
\<close>

record 'g ZKExactGeoPointCircuitProof =
  proof_field :: ExactGeoPointCircuitProof
  claimedZKGeoPoint :: 'g

text \<open>
  Errors. \<open>Error msg\<close> is JavaScript's \<^verbatim>\<open>new Error(msg)\<close>. The other two are the
  failures the external engine reports: a rejected proof, a failed transformation.
\<close>

datatype error =
    Error string
  | CryptographicVerificationFailure
  | DerivationFailure

text \<open>The error thrown on line 76; the specification calls it ClaimMismatch.\<close>

definition ClaimMismatch :: error where
  "ClaimMismatch = Error ''The GeoPoint is not the claimed one''"

text \<open>Calls to external collaborators, in the order they are made.\<close>

datatype event =
    ProofVerify ExactGeoPointCircuitProof  \<comment> \<open>\<^verbatim>\<open>this.proof.verify()\<close>, by the base class\<close>
  | ZKGeoPointHash                         \<comment> \<open>\<^verbatim>\<open>this.claimedZKGeoPoint.hash()\<close>\<close>
  | ConsoleLog                             \<comment> \<open>\<^verbatim>\<open>console.log(...)\<close>\<close>
  | ToZKValue                              \<comment> \<open>\<^verbatim>\<open>claimed.toZKValue()\<close>\<close>
  | FromGeoPointProvider                   \<comment> \<open>\<^verbatim>\<open>ExactGeoPointCircuit.fromGeoPointProvider(...)\<close>\<close>
  | ProofFromJSON                          \<comment> \<open>\<^verbatim>\<open>ExactGeoPointCircuitProof.fromJSON(...)\<close>\<close>

text \<open>
  The mutable state outside the instances: the log of external calls and the set of keys the
  caching middleware has recorded as verified.
\<close>

record 'k state =
  log :: "event list"
  verifiedProofs :: "'k set"

subsection \<open>Statements that may throw and that change the state\<close>

type_synonym ('k, 'a) stmt = "'k state \<Rightarrow> (error + 'a) \<times> 'k state"

definition ret :: "'a \<Rightarrow> ('k, 'a) stmt" where
  "ret v s = (Inr v, s)"

definition throw :: "error \<Rightarrow> ('k, 'a) stmt" where
  "throw e s = (Inl e, s)"

text \<open>Sequencing: an exception of the first statement skips the rest.\<close>

definition bind :: "('k, 'a) stmt \<Rightarrow> ('a \<Rightarrow> ('k, 'b) stmt) \<Rightarrow> ('k, 'b) stmt" where
  "bind m f s = (case m s of (Inl e, s') \<Rightarrow> (Inl e, s') | (Inr v, s') \<Rightarrow> f v s')"

definition emit :: "event \<Rightarrow> ('k, unit) stmt" where
  "emit ev s = (Inr (), s\<lparr>log := log s @ [ev]\<rparr>)"

text \<open>How often the external engine's cryptographic check was called.\<close>

fun proof_verify_calls :: "event list \<Rightarrow> nat" where
  "proof_verify_calls [] = 0"
| "proof_verify_calls (ProofVerify p # evs) = Suc (proof_verify_calls evs)"
| "proof_verify_calls (ev # evs) = proof_verify_calls evs"

text \<open>How often a claimed point was hashed, that is, how often claim binding ran.\<close>

fun claim_binding_calls :: "event list \<Rightarrow> nat" where
  "claim_binding_calls [] = 0"
| "claim_binding_calls (ZKGeoPointHash # evs) = Suc (claim_binding_calls evs)"
| "claim_binding_calls (ev # evs) = claim_binding_calls evs"

text \<open>How often the external circuit transformation was called.\<close>

fun transformation_calls :: "event list \<Rightarrow> nat" where
  "transformation_calls [] = 0"
| "transformation_calls (FromGeoPointProvider # evs) = Suc (transformation_calls evs)"
| "transformation_calls (ev # evs) = transformation_calls evs"

subsection \<open>JavaScript and o1js\<close>

text \<open>
  o1js declares \<^verbatim>\<open>Field.equals(y): Bool\<close>, where \<^verbatim>\<open>Bool\<close> is a class: the result is an
  object that holds the outcome of the comparison, not a JavaScript boolean.
\<close>

datatype Bool = new_Bool bool

definition Field_equals :: "Field \<Rightarrow> Field \<Rightarrow> Bool" where
  "Field_equals x y = new_Bool (x = y)"

text \<open>The JavaScript values an \<^verbatim>\<open>if\<close> of this file can meet, and ECMAScript's ToBoolean.\<close>

datatype js_value =
    JSUndefined
  | JSNull
  | JSBoolean bool
  | JSString string
  | JSObject Bool

fun ToBoolean :: "js_value \<Rightarrow> bool" where
  "ToBoolean JSUndefined = False"
| "ToBoolean JSNull = False"
| "ToBoolean (JSBoolean b) = b"
| "ToBoolean (JSString s) = (s \<noteq> [])"
| "ToBoolean (JSObject obj) = True"

text \<open>The operator \<^verbatim>\<open>!\<close>.\<close>

definition js_not :: "js_value \<Rightarrow> bool" where
  "js_not v = (\<not> ToBoolean v)"

text \<open>
  The collaborators of an instance, as parameters: whether the engine accepts a proof
  object, the hash of a ZKGeoPoint, and the key under which the caching middleware records
  an instance.
\<close>

record ('g, 'k) env =
  proof_verify :: "ExactGeoPointCircuitProof \<Rightarrow> bool"
  hash :: "'g \<Rightarrow> Field"
  proofId :: "'g ZKExactGeoPointCircuitProof \<Rightarrow> 'k"

subsection \<open>The class\<close>

text \<open>The constructor, lines 29-33.\<close>

definition new_ZKExactGeoPointCircuitProof ::
  "'g \<Rightarrow> ExactGeoPointCircuitProof \<Rightarrow> 'g ZKExactGeoPointCircuitProof" where
  "new_ZKExactGeoPointCircuitProof zkGeoPoint proof_arg =
     \<lparr>proof_field = proof_arg, claimedZKGeoPoint = zkGeoPoint\<rparr>"

text \<open>\<^verbatim>\<open>this.claimedZKGeoPoint.hash()\<close>: an external call that returns the hash.\<close>

definition ZKGeoPoint_hash :: "('g, 'k) env \<Rightarrow> 'g \<Rightarrow> ('k, Field) stmt" where
  "ZKGeoPoint_hash env g = bind (emit ZKGeoPointHash) (\<lambda>_. ret (hash env g))"

text \<open>
  \<^verbatim>\<open>assertGeoPointIsTheClaimedOne\<close>, lines 66-78. The condition of the \<^verbatim>\<open>if\<close> applies
  \<^verbatim>\<open>!\<close> to the object that \<^verbatim>\<open>equals\<close> returns.
\<close>

definition assertGeoPointIsTheClaimedOne ::
  "('g, 'k) env \<Rightarrow> 'g ZKExactGeoPointCircuitProof \<Rightarrow> ('k, unit) stmt" where
  "assertGeoPointIsTheClaimedOne env this =
     (let geoPointCommitment = publicOutput (proof_field this) in
      bind (ZKGeoPoint_hash env (claimedZKGeoPoint this)) (\<lambda>claimedGeoPointCommitment.
      if js_not (JSObject (Field_equals (geoPointHash geoPointCommitment) claimedGeoPointCommitment))
      then
        bind (emit ConsoleLog) (\<lambda>_.
        bind (emit ConsoleLog) (\<lambda>_.
        bind (emit ToZKValue) (\<lambda>_.
        bind (emit ConsoleLog) (\<lambda>_.
        throw (Error ''The GeoPoint is not the claimed one'')))))
      else ret ()))"

text \<open>
  Modelled from the spec: \<^verbatim>\<open>ZKLocusProof.verify\<close>, the method of the base class that
  \<^verbatim>\<open>super.verify()\<close> calls; the base class is not among the sources. It delegates to the
  opaque handle's cryptographic verification and fails with
  \<open>CryptographicVerificationFailure\<close> when the external engine rejects the proof.
\<close>

definition ZKLocusProof_verify ::
  "('g, 'k) env \<Rightarrow> 'g ZKExactGeoPointCircuitProof \<Rightarrow> ('k, unit) stmt" where
  "ZKLocusProof_verify env this =
     bind (emit (ProofVerify (proof_field this))) (\<lambda>_.
     if proof_verify env (proof_field this) then ret ()
     else throw CryptographicVerificationFailure)"

text \<open>\<^verbatim>\<open>verify\<close>, lines 84-87.\<close>

definition verify :: "('g, 'k) env \<Rightarrow> 'g ZKExactGeoPointCircuitProof \<Rightarrow> ('k, unit) stmt" where
  "verify env this =
     bind (ZKLocusProof_verify env this) (\<lambda>_.
     assertGeoPointIsTheClaimedOne env this)"

text \<open>
  Modelled from the spec: \<^verbatim>\<open>CachingProofVerificationMiddleware\<close>, the class decorator of
  line 19; its file is not among the sources. It wraps a \<^verbatim>\<open>verify\<close>: when a prior
  successful verification exists for the key of the instance it returns at once, without
  calling the wrapped method; otherwise it runs the wrapped method and, only on success,
  stores the key. A failure is never stored.
\<close>

definition CachingProofVerificationMiddleware ::
  "('w \<Rightarrow> 'k) \<Rightarrow> ('w \<Rightarrow> ('k, unit) stmt) \<Rightarrow> 'w \<Rightarrow> ('k, unit) stmt" where
  "CachingProofVerificationMiddleware key base_verify this s =
     (if key this \<in> verifiedProofs s then (Inr (), s)
      else (case base_verify this s of
              (Inl e, s') \<Rightarrow> (Inl e, s')
            | (Inr u, s') \<Rightarrow> (Inr u, s'\<lparr>verifiedProofs := insert (key this) (verifiedProofs s')\<rparr>)))"

text \<open>
  \<^verbatim>\<open>this.verify()\<close> on an instance of the decorated class: the middleware around
  \<open>verify\<close>.
\<close>

definition this_verify ::
  "('g, 'k) env \<Rightarrow> 'g ZKExactGeoPointCircuitProof \<Rightarrow> ('k, unit) stmt" where
  "this_verify env = CachingProofVerificationMiddleware (proofId env) (verify env)"

text \<open>The getter \<^verbatim>\<open>zkGeoPoint\<close>, lines 94-97.\<close>

definition zkGeoPoint :: "('g, 'k) env \<Rightarrow> 'g ZKExactGeoPointCircuitProof \<Rightarrow> ('k, 'g) stmt" where
  "zkGeoPoint env this =
     bind (this_verify env this) (\<lambda>_.
     ret (claimedZKGeoPoint this))"

text \<open>
  \<^verbatim>\<open>fromJSON\<close>, lines 58-60: the result of the engine's \<^verbatim>\<open>fromJSON\<close>, taken as a
  parameter (it may reject its input).
\<close>

definition fromJSON ::
  "('j \<Rightarrow> error + ExactGeoPointCircuitProof) \<Rightarrow> 'j \<Rightarrow> ('k, ExactGeoPointCircuitProof) stmt" where
  "fromJSON ExactGeoPointCircuitProof_fromJSON jsonProof =
     bind (emit ProofFromJSON) (\<lambda>_.
     (case ExactGeoPointCircuitProof_fromJSON jsonProof of
        Inl e \<Rightarrow> throw e
      | Inr p \<Rightarrow> ret p))"

text \<open>
  The argument of \<^verbatim>\<open>fromZKGeoPointProviderProof\<close> is an instance of
  \<^verbatim>\<open>ZKGeoPointProviderCircuitProof\<close>, a class outside this file. The object is given by the
  three members the factory uses: the method \<^verbatim>\<open>verify\<close> and the getters
  \<^verbatim>\<open>zkGeoPoint\<close> and \<^verbatim>\<open>zkProof\<close>; \<open>'pp\<close> stands for
  \<^verbatim>\<open>GeoPointProviderCircuitProof\<close>.
\<close>

record ('g, 'pp, 'k) ZKGeoPointProviderCircuitProof =
  provider_verify :: "('k, unit) stmt"
  provider_zkGeoPoint :: "('k, 'g) stmt"
  provider_zkProof :: "('k, 'pp) stmt"

text \<open>
  \<^verbatim>\<open>await ExactGeoPointCircuit.fromGeoPointProvider(p)\<close>: the external transformation, a
  parameter; a rejected promise is an exception at the \<^verbatim>\<open>await\<close>.
\<close>

definition ExactGeoPointCircuit_fromGeoPointProvider ::
  "('pp \<Rightarrow> error + ExactGeoPointCircuitProof) \<Rightarrow> 'pp \<Rightarrow> ('k, ExactGeoPointCircuitProof) stmt" where
  "ExactGeoPointCircuit_fromGeoPointProvider transform p =
     bind (emit FromGeoPointProvider) (\<lambda>_.
     (case transform p of
        Inl e \<Rightarrow> throw e
      | Inr q \<Rightarrow> ret q))"

text \<open>\<^verbatim>\<open>fromZKGeoPointProviderProof\<close>, lines 41-51.\<close>

definition fromZKGeoPointProviderProof ::
  "('pp \<Rightarrow> error + ExactGeoPointCircuitProof) \<Rightarrow> ('g, 'pp, 'k) ZKGeoPointProviderCircuitProof
     \<Rightarrow> ('k, 'g ZKExactGeoPointCircuitProof) stmt" where
  "fromZKGeoPointProviderProof transform proof_arg =
     bind (provider_verify proof_arg) (\<lambda>_.
     bind (provider_zkGeoPoint proof_arg) (\<lambda>zkGeoPoint.
     bind (provider_zkProof proof_arg) (\<lambda>geoPointProviderProof.
     bind (ExactGeoPointCircuit_fromGeoPointProvider transform geoPointProviderProof)
       (\<lambda>exactGeoPointProof.
     ret (new_ZKExactGeoPointCircuitProof zkGeoPoint exactGeoPointProof)))))"

subsection \<open>Later calls\<close>

text \<open>
  What callers may do with instances of the class after some point in time: call
  \<^verbatim>\<open>verify()\<close> or read \<^verbatim>\<open>zkGeoPoint\<close>, on any instance, in any order. A caller that
  catches an exception goes on, so \<open>run\<close> keeps the state and drops the outcome.
\<close>

datatype 'g call =
    CallVerify "'g ZKExactGeoPointCircuitProof"
  | CallZkGeoPoint "'g ZKExactGeoPointCircuitProof"

fun run :: "('g, 'k) env \<Rightarrow> 'g call list \<Rightarrow> 'k state \<Rightarrow> 'k state" where
  "run env [] s = s"
| "run env (CallVerify w # cs) s = run env cs (snd (this_verify env w s))"
| "run env (CallZkGeoPoint w # cs) s = run env cs (snd (zkGeoPoint env w s))"

subsection \<open>A concrete scenario\<close>

text \<open>
  A ZKGeoPoint is given here by its latitude and longitude; the engine accepts exactly the
  proof objects whose data is \<open>''valid''\<close>; an instance is cached under the data of its
  proof object.
\<close>

definition sample_env :: "(int \<times> int, string) env" where
  "sample_env =
     \<lparr>proof_verify = (\<lambda>p. proofData p = ''valid''),
      hash = (\<lambda>(lat, lon). nat (\<bar>lat\<bar> * 1000 + \<bar>lon\<bar>)),
      proofId = (\<lambda>w. proofData (proof_field w))\<rparr>"

definition empty_state :: "string state" where
  "empty_state = \<lparr>log = [], verifiedProofs = {}\<rparr>"

text \<open>A proof object that commits to the point (40, -74) and that the engine accepts.\<close>

definition valid_proof :: ExactGeoPointCircuitProof where
  "valid_proof = \<lparr>publicOutput = \<lparr>geoPointHash = 40074\<rparr>, proofData = ''valid''\<rparr>"

text \<open>The same commitment in a proof object that the engine rejects.\<close>

definition tampered_proof :: ExactGeoPointCircuitProof where
  "tampered_proof = \<lparr>publicOutput = \<lparr>geoPointHash = 40074\<rparr>, proofData = ''tampered''\<rparr>"

definition honest_wrapper :: "(int \<times> int) ZKExactGeoPointCircuitProof" where
  "honest_wrapper = new_ZKExactGeoPointCircuitProof (40, - 74) valid_proof"

definition tampered_wrapper :: "(int \<times> int) ZKExactGeoPointCircuitProof" where
  "tampered_wrapper = new_ZKExactGeoPointCircuitProof (40, - 74) tampered_proof"

text \<open>The claim (41, -74) on the proof object that commits to (40, -74).\<close>

definition mismatched_wrapper :: "(int \<times> int) ZKExactGeoPointCircuitProof" where
  "mismatched_wrapper = new_ZKExactGeoPointCircuitProof (41, - 74) valid_proof"

text \<open>A source object whose \<^verbatim>\<open>verify()\<close> passes and one whose \<^verbatim>\<open>verify()\<close> throws.\<close>

definition verified_provider ::
  "(int \<times> int, string, string) ZKGeoPointProviderCircuitProof" where
  "verified_provider =
     \<lparr>provider_verify = ret (),
      provider_zkGeoPoint = ret (40, - 74),
      provider_zkProof = ret ''provider proof''\<rparr>"

definition failing_provider ::
  "(int \<times> int, string, string) ZKGeoPointProviderCircuitProof" where
  "failing_provider =
     \<lparr>provider_verify = throw CryptographicVerificationFailure,
      provider_zkGeoPoint = ret (40, - 74),
      provider_zkProof = ret ''provider proof''\<rparr>"

definition sample_transform :: "string \<Rightarrow> error + ExactGeoPointCircuitProof" where
  "sample_transform p = (if p = ''provider proof'' then Inr valid_proof else Inl DerivationFailure)"

section \<open>Auxiliary facts\<close>

lemmas sample_defs = sample_env_def honest_wrapper_def tampered_wrapper_def mismatched_wrapper_def
  empty_state_def new_ZKExactGeoPointCircuitProof_def valid_proof_def tampered_proof_def

lemma assertGeoPointIsTheClaimedOne_eq:
  "assertGeoPointIsTheClaimedOne env this s = (Inr (), s\<lparr>log := log s @ [ZKGeoPointHash]\<rparr>)"
  by (simp add: assertGeoPointIsTheClaimedOne_def ZKGeoPoint_hash_def bind_def emit_def
      ret_def js_not_def)

lemma proof_verify_calls_append:
  "proof_verify_calls (xs @ ys) = proof_verify_calls xs + proof_verify_calls ys"
  by (induction xs rule: proof_verify_calls.induct) simp_all

lemma claim_binding_calls_append:
  "claim_binding_calls (xs @ ys) = claim_binding_calls xs + claim_binding_calls ys"
  by (induction xs rule: claim_binding_calls.induct) simp_all

lemma transformation_calls_append:
  "transformation_calls (xs @ ys) = transformation_calls xs + transformation_calls ys"
  by (induction xs rule: transformation_calls.induct) simp_all

lemma ZKLocusProof_verify_eq:
  "ZKLocusProof_verify env this s =
     (if proof_verify env (proof_field this) then Inr () else Inl CryptographicVerificationFailure,
      s\<lparr>log := log s @ [ProofVerify (proof_field this)]\<rparr>)"
  by (simp add: ZKLocusProof_verify_def bind_def emit_def ret_def throw_def)

lemma verify_eq:
  "verify env this s =
     (if proof_verify env (proof_field this)
      then (Inr (), s\<lparr>log := log s @ [ProofVerify (proof_field this), ZKGeoPointHash]\<rparr>)
      else (Inl CryptographicVerificationFailure,
            s\<lparr>log := log s @ [ProofVerify (proof_field this)]\<rparr>))"
  by (simp add: verify_def bind_def ZKLocusProof_verify_eq assertGeoPointIsTheClaimedOne_eq)

lemma this_verify_hit:
  "proofId env this \<in> verifiedProofs s \<Longrightarrow> this_verify env this s = (Inr (), s)"
  by (simp add: this_verify_def CachingProofVerificationMiddleware_def)

lemma this_verify_miss:
  "proofId env this \<notin> verifiedProofs s \<Longrightarrow>
   this_verify env this s =
     (if proof_verify env (proof_field this)
      then (Inr (), s\<lparr>log := log s @ [ProofVerify (proof_field this), ZKGeoPointHash],
                      verifiedProofs := insert (proofId env this) (verifiedProofs s)\<rparr>)
      else (Inl CryptographicVerificationFailure,
            s\<lparr>log := log s @ [ProofVerify (proof_field this)]\<rparr>))"
  by (simp add: this_verify_def CachingProofVerificationMiddleware_def verify_eq)

lemma this_verify_success_cached:
  "this_verify env this s = (Inr (), s1) \<Longrightarrow> proofId env this \<in> verifiedProofs s1"
  by (cases "proofId env this \<in> verifiedProofs s")
     (auto simp: this_verify_hit this_verify_miss split: if_splits)

lemma this_verify_mono:
  "verifiedProofs s \<subseteq> verifiedProofs (snd (this_verify env w s))"
  by (cases "proofId env w \<in> verifiedProofs s")
     (auto simp: this_verify_hit this_verify_miss)

lemma zkGeoPoint_eq:
  "zkGeoPoint env this s =
     (case this_verify env this s of
        (Inl e, s') \<Rightarrow> (Inl e, s')
      | (Inr u, s') \<Rightarrow> (Inr (claimedZKGeoPoint this), s'))"
  by (simp add: zkGeoPoint_def bind_def ret_def split: prod.splits sum.splits)

lemma snd_zkGeoPoint: "snd (zkGeoPoint env this s) = snd (this_verify env this s)"
  by (simp add: zkGeoPoint_eq split: prod.splits sum.splits)

lemma run_mono: "verifiedProofs s \<subseteq> verifiedProofs (run env cs s)"
proof (induction cs arbitrary: s)
  case Nil
  show ?case by simp
next
  case (Cons c cs)
  show ?case
  proof (cases c)
    case (CallVerify w)
    have "verifiedProofs s \<subseteq> verifiedProofs (snd (this_verify env w s))"
      by (rule this_verify_mono)
    also have "\<dots> \<subseteq> verifiedProofs (run env cs (snd (this_verify env w s)))"
      by (rule Cons.IH)
    finally show ?thesis using CallVerify by simp
  next
    case (CallZkGeoPoint w)
    have "verifiedProofs s \<subseteq> verifiedProofs (snd (this_verify env w s))"
      by (rule this_verify_mono)
    also have "\<dots> \<subseteq> verifiedProofs (run env cs (snd (this_verify env w s)))"
      by (rule Cons.IH)
    finally show ?thesis using CallZkGeoPoint by (simp add: snd_zkGeoPoint)
  qed
qed

lemma transformation_eq:
  "ExactGeoPointCircuit_fromGeoPointProvider transform pp s =
     (transform pp, s\<lparr>log := log s @ [FromGeoPointProvider]\<rparr>)"
  by (cases "transform pp")
     (simp_all add: ExactGeoPointCircuit_fromGeoPointProvider_def bind_def emit_def ret_def throw_def)

section \<open>Properties\<close>

text \<open>
  C1. Reading the claimed point through the getter \<open>zkGeoPoint\<close> runs \<^verbatim>\<open>this.verify()\<close>
  first. When the getter returns a value, \<^verbatim>\<open>verify()\<close> has returned normally from the
  same state and the value is the claimed point; when \<^verbatim>\<open>verify()\<close> throws, the getter
  throws the same error and returns no value.
\<close>

theorem zkGeoPoint_verifies_before_returning:
  "(zkGeoPoint env this s = (Inr v, s') \<longrightarrow>
      this_verify env this s = (Inr (), s') \<and> v = claimedZKGeoPoint this)
   \<and> (this_verify env this s = (Inl e, s'') \<longrightarrow> zkGeoPoint env this s = (Inl e, s''))"
  by (auto simp: zkGeoPoint_eq split: prod.splits sum.splits)

theorem zkGeoPoint_verifies_before_returning_witness:
  "zkGeoPoint sample_env honest_wrapper empty_state =
     (Inr (40, - 74), \<lparr>log = [ProofVerify valid_proof, ZKGeoPointHash], verifiedProofs = {''valid''}\<rparr>)
   \<and> this_verify sample_env honest_wrapper empty_state =
     (Inr (), \<lparr>log = [ProofVerify valid_proof, ZKGeoPointHash], verifiedProofs = {''valid''}\<rparr>)
   \<and> this_verify sample_env tampered_wrapper empty_state =
     (Inl CryptographicVerificationFailure, \<lparr>log = [ProofVerify tampered_proof], verifiedProofs = {}\<rparr>)
   \<and> zkGeoPoint sample_env tampered_wrapper empty_state =
     (Inl CryptographicVerificationFailure, \<lparr>log = [ProofVerify tampered_proof], verifiedProofs = {}\<rparr>)"
  using zkGeoPoint_verifies_before_returning
          [of sample_env honest_wrapper empty_state "(40, - 74)"
              "\<lparr>log = [ProofVerify valid_proof, ZKGeoPointHash], verifiedProofs = {''valid''}\<rparr>"]
        zkGeoPoint_verifies_before_returning
          [of sample_env tampered_wrapper empty_state _ _ CryptographicVerificationFailure
              "\<lparr>log = [ProofVerify tampered_proof], verifiedProofs = {}\<rparr>"]
  by (simp add: zkGeoPoint_eq this_verify_miss sample_env_def honest_wrapper_def
      tampered_wrapper_def empty_state_def new_ZKExactGeoPointCircuitProof_def
      valid_proof_def tampered_proof_def)

text \<open>
  C2. The claim (41, -74) on a proof object that the engine accepts and whose public output
  commits to (40, -74): the embedded commitment differs from the hash of the claim, and
  \<open>verify\<close> returns normally instead of throwing \<open>ClaimMismatch\<close>.
\<close>

theorem verify_accepts_mismatched_claim:
  "geoPointHash (publicOutput (proof_field mismatched_wrapper))
     \<noteq> hash sample_env (claimedZKGeoPoint mismatched_wrapper)
   \<and> verify sample_env mismatched_wrapper empty_state =
       (Inr (), \<lparr>log = [ProofVerify valid_proof, ZKGeoPointHash], verifiedProofs = {}\<rparr>)
   \<and> fst (verify sample_env mismatched_wrapper empty_state) \<noteq> Inl ClaimMismatch"
  by (simp add: verify_eq sample_defs)

text \<open>
  C3. When the commitment in the public output of the proof object equals the hash of the
  claimed point and the external engine accepts the proof object, \<open>verify\<close> returns
  normally - called directly or through the caching middleware, from any state - and the
  getter returns exactly the point given to the constructor.
\<close>

theorem verify_succeeds_on_valid_pair:
  assumes "geoPointHash (publicOutput p) = hash env g"
    and "proof_verify env p"
  shows "fst (verify env (new_ZKExactGeoPointCircuitProof g p) s) = Inr ()
    \<and> fst (this_verify env (new_ZKExactGeoPointCircuitProof g p) s) = Inr ()
    \<and> fst (zkGeoPoint env (new_ZKExactGeoPointCircuitProof g p) s) = Inr g"
proof -
  let ?w = "new_ZKExactGeoPointCircuitProof g p"
  have p: "proof_verify env (proof_field ?w)"
    using assms(2) by (simp add: new_ZKExactGeoPointCircuitProof_def)
  have v: "fst (verify env ?w s) = Inr ()"
    using p by (simp add: verify_eq)
  have t: "fst (this_verify env ?w s) = Inr ()"
    using p by (cases "proofId env ?w \<in> verifiedProofs s")
      (simp_all add: this_verify_hit this_verify_miss)
  have "fst (zkGeoPoint env ?w s) = Inr (claimedZKGeoPoint ?w)"
    using t by (cases "this_verify env ?w s") (simp add: zkGeoPoint_eq)
  then have "fst (zkGeoPoint env ?w s) = Inr g"
    by (simp add: new_ZKExactGeoPointCircuitProof_def)
  with v t show ?thesis by simp
qed

theorem verify_succeeds_on_valid_pair_witness:
  "geoPointHash (publicOutput valid_proof) = hash sample_env (40, - 74)
   \<and> proof_verify sample_env valid_proof
   \<and> fst (verify sample_env honest_wrapper empty_state) = Inr ()
   \<and> fst (this_verify sample_env honest_wrapper empty_state) = Inr ()
   \<and> fst (zkGeoPoint sample_env honest_wrapper empty_state) = Inr (40, - 74)"
proof -
  have h: "geoPointHash (publicOutput valid_proof) = hash sample_env (40, - 74)"
    by (simp add: sample_env_def valid_proof_def)
  have a: "proof_verify sample_env valid_proof"
    by (simp add: sample_env_def valid_proof_def)
  show ?thesis
    using h a verify_succeeds_on_valid_pair [OF h a, of empty_state]
    by (simp add: honest_wrapper_def)
qed

text \<open>
  C4. The factory calls \<^verbatim>\<open>verify()\<close> of the source object first. When that call throws,
  the factory throws the same error in the state that \<^verbatim>\<open>verify()\<close> left, so the external
  transformation is not called. When \<^verbatim>\<open>verify()\<close> and the two getters of the source
  return, the call of the transformation is the last event of the log, after them.
\<close>

theorem fromZKGeoPointProviderProof_verifies_source_first:
  "(provider_verify source s = (Inl e, s1) \<longrightarrow>
      fromZKGeoPointProviderProof transform source s = (Inl e, s1)
      \<and> transformation_calls (log (snd (fromZKGeoPointProviderProof transform source s)))
          = transformation_calls (log s1))
   \<and> (provider_verify source s = (Inr (), s1') \<and> provider_zkGeoPoint source s1' = (Inr g, s2)
        \<and> provider_zkProof source s2 = (Inr pp, s3) \<longrightarrow>
      log (snd (fromZKGeoPointProviderProof transform source s)) = log s3 @ [FromGeoPointProvider])"
  by (simp add: fromZKGeoPointProviderProof_def bind_def transformation_eq ret_def split: sum.splits)

theorem fromZKGeoPointProviderProof_verifies_source_first_witness:
  "provider_verify failing_provider empty_state = (Inl CryptographicVerificationFailure, empty_state)
   \<and> fromZKGeoPointProviderProof sample_transform failing_provider empty_state
       = (Inl CryptographicVerificationFailure, empty_state)
   \<and> transformation_calls (log (snd (fromZKGeoPointProviderProof sample_transform failing_provider empty_state))) = 0
   \<and> provider_verify verified_provider empty_state = (Inr (), empty_state)
   \<and> log (snd (fromZKGeoPointProviderProof sample_transform verified_provider empty_state))
       = [FromGeoPointProvider]"
  using fromZKGeoPointProviderProof_verifies_source_first
          [where source = failing_provider and s = empty_state
             and e = CryptographicVerificationFailure and ?s1.0 = empty_state
             and transform = sample_transform]
        fromZKGeoPointProviderProof_verifies_source_first
          [where source = verified_provider and s = empty_state and s1' = empty_state
             and g = "(40, - 74)" and ?s2.0 = empty_state and pp = "''provider proof''"
             and ?s3.0 = empty_state and transform = sample_transform]
  by (simp add: failing_provider_def verified_provider_def throw_def ret_def empty_state_def)

text \<open>
  C5. When the factory returns an instance, the source's \<^verbatim>\<open>verify()\<close> and getters have
  returned; the claimed point of the new instance is the one the source's getter returned;
  its proof object is the result of the external transformation; and after the
  transformation nothing else happened: the engine's check was not called, no claim was
  hashed and no key was added to the verified set, so the new instance is unverified.
\<close>

theorem fromZKGeoPointProviderProof_result:
  assumes "fromZKGeoPointProviderProof transform source s = (Inr w, t)"
  shows "\<exists>s1 g s2 pp s3 q.
      provider_verify source s = (Inr (), s1)
    \<and> provider_zkGeoPoint source s1 = (Inr g, s2)
    \<and> provider_zkProof source s2 = (Inr pp, s3)
    \<and> transform pp = Inr q
    \<and> claimedZKGeoPoint w = g
    \<and> proof_field w = q
    \<and> t = s3\<lparr>log := log s3 @ [FromGeoPointProvider]\<rparr>
    \<and> verifiedProofs t = verifiedProofs s3
    \<and> proof_verify_calls (log t) = proof_verify_calls (log s3)
    \<and> claim_binding_calls (log t) = claim_binding_calls (log s3)"
  using assms
  by (auto simp: fromZKGeoPointProviderProof_def bind_def transformation_eq ret_def
      new_ZKExactGeoPointCircuitProof_def proof_verify_calls_append claim_binding_calls_append
      split: prod.splits sum.splits)

theorem fromZKGeoPointProviderProof_result_witness:
  "fromZKGeoPointProviderProof sample_transform verified_provider empty_state
     = (Inr honest_wrapper, \<lparr>log = [FromGeoPointProvider], verifiedProofs = {}\<rparr>)
   \<and> claimedZKGeoPoint honest_wrapper = (40, - 74)
   \<and> proof_field honest_wrapper = valid_proof
   \<and> sample_transform ''provider proof'' = Inr valid_proof"
proof -
  have a: "fromZKGeoPointProviderProof sample_transform verified_provider empty_state
     = (Inr honest_wrapper, \<lparr>log = [FromGeoPointProvider], verifiedProofs = {}\<rparr>)"
    by (simp add: fromZKGeoPointProviderProof_def bind_def transformation_eq ret_def
        verified_provider_def sample_transform_def honest_wrapper_def empty_state_def)
  show ?thesis
    using a fromZKGeoPointProviderProof_result [OF a]
    by (auto simp: verified_provider_def ret_def sample_transform_def)
qed

text \<open>
  C6. \<open>verify\<close> (lines 84-87) first calls the inherited \<^verbatim>\<open>super.verify()\<close>, the engine's
  cryptographic check, and only then, when that has returned normally, runs the claim
  binding: the log grows by the engine's check, followed by the hash of the claim exactly
  when the engine accepted.
\<close>

theorem verify_checks_proof_then_claim:
  "log (snd (verify env this s)) =
     log s @ ProofVerify (proof_field this) #
       (if proof_verify env (proof_field this) then [ZKGeoPointHash] else [])
   \<and> fst (verify env this s) =
       (if proof_verify env (proof_field this) then Inr () else Inl CryptographicVerificationFailure)
   \<and> verify env this s =
       (case ZKLocusProof_verify env this s of
          (Inl e, s') \<Rightarrow> (Inl e, s')
        | (Inr u, s') \<Rightarrow> assertGeoPointIsTheClaimedOne env this s')"
  by (simp add: verify_eq ZKLocusProof_verify_eq assertGeoPointIsTheClaimedOne_eq)

text \<open>
  C7. Two calls of \<^verbatim>\<open>verify()\<close> on the same instance, the second in the state the first
  left, have the same outcome. When the first returned normally, the second is served from
  the verified set: it leaves the state as it is, so the engine's check is not called again.
\<close>

theorem this_verify_idempotent:
  assumes "this_verify env this s = (r1, s1)"
    and "this_verify env this s1 = (r2, s2)"
  shows "r2 = r1
    \<and> (r1 = Inr () \<longrightarrow> s2 = s1 \<and> proof_verify_calls (log s2) = proof_verify_calls (log s1))"
proof (cases "proofId env this \<in> verifiedProofs s")
  case True
  then show ?thesis using assms by (auto simp: this_verify_hit)
next
  case miss: False
  show ?thesis
  proof (cases "proof_verify env (proof_field this)")
    case True
    with miss assms(1) have "proofId env this \<in> verifiedProofs s1" and "r1 = Inr ()"
      by (auto simp: this_verify_miss)
    then show ?thesis using assms(2) by (auto simp: this_verify_hit)
  next
    case False
    with miss assms(1) have "proofId env this \<notin> verifiedProofs s1"
      and "r1 = Inl CryptographicVerificationFailure"
      by (auto simp: this_verify_miss)
    then show ?thesis using assms(2) False by (auto simp: this_verify_miss)
  qed
qed

theorem this_verify_idempotent_witness:
  "this_verify sample_env honest_wrapper empty_state =
     (Inr (), \<lparr>log = [ProofVerify valid_proof, ZKGeoPointHash], verifiedProofs = {''valid''}\<rparr>)
   \<and> this_verify sample_env honest_wrapper
       \<lparr>log = [ProofVerify valid_proof, ZKGeoPointHash], verifiedProofs = {''valid''}\<rparr> =
     (Inr (), \<lparr>log = [ProofVerify valid_proof, ZKGeoPointHash], verifiedProofs = {''valid''}\<rparr>)
   \<and> proof_verify_calls [ProofVerify valid_proof, ZKGeoPointHash] = 1"
proof -
  let ?s1 = "\<lparr>log = [ProofVerify valid_proof, ZKGeoPointHash], verifiedProofs = {''valid''}\<rparr>"
  have a: "this_verify sample_env honest_wrapper empty_state = (Inr (), ?s1)"
    by (simp add: this_verify_miss sample_defs)
  have b: "this_verify sample_env honest_wrapper ?s1 = (Inr (), ?s1)"
    by (simp add: this_verify_hit sample_defs)
  show ?thesis
    using a b this_verify_idempotent [OF a b] by simp
qed

text \<open>
  C8. Once \<^verbatim>\<open>verify()\<close> has returned normally on an instance, the getter on that instance
  returns the claimed point after any later sequence of \<^verbatim>\<open>verify()\<close> calls and getter
  reads on any instances. Moreover, when that \<^verbatim>\<open>verify()\<close> really ran the checks (the
  key was not stored before), the getter returns the claimed point in every state: the
  instance is a value that no method changes, and the engine's verdict depends on the proof
  object alone.
\<close>

theorem zkGeoPoint_never_refails_after_verify:
  assumes "this_verify env this s = (Inr (), s1)"
  shows "zkGeoPoint env this (run env calls s1) = (Inr (claimedZKGeoPoint this), run env calls s1)
    \<and> (proofId env this \<notin> verifiedProofs s \<longrightarrow>
         (\<forall>s2. fst (zkGeoPoint env this s2) = Inr (claimedZKGeoPoint this)))"
proof
  have "proofId env this \<in> verifiedProofs s1"
    using assms by (rule this_verify_success_cached)
  then have "proofId env this \<in> verifiedProofs (run env calls s1)"
    using run_mono [of s1 env calls] by auto
  then show "zkGeoPoint env this (run env calls s1) = (Inr (claimedZKGeoPoint this), run env calls s1)"
    by (simp add: zkGeoPoint_eq this_verify_hit)
next
  show "proofId env this \<notin> verifiedProofs s \<longrightarrow>
         (\<forall>s2. fst (zkGeoPoint env this s2) = Inr (claimedZKGeoPoint this))"
  proof (intro impI allI)
    fix s2
    assume miss: "proofId env this \<notin> verifiedProofs s"
    with assms have ok: "proof_verify env (proof_field this)"
      by (auto simp: this_verify_miss split: if_splits)
    show "fst (zkGeoPoint env this s2) = Inr (claimedZKGeoPoint this)"
      using ok by (cases "proofId env this \<in> verifiedProofs s2")
        (simp_all add: zkGeoPoint_eq this_verify_hit this_verify_miss)
  qed
qed

theorem zkGeoPoint_never_refails_after_verify_witness:
  "this_verify sample_env honest_wrapper empty_state =
     (Inr (), \<lparr>log = [ProofVerify valid_proof, ZKGeoPointHash], verifiedProofs = {''valid''}\<rparr>)
   \<and> fst (zkGeoPoint sample_env honest_wrapper
       (run sample_env [CallZkGeoPoint tampered_wrapper, CallVerify mismatched_wrapper]
          \<lparr>log = [ProofVerify valid_proof, ZKGeoPointHash], verifiedProofs = {''valid''}\<rparr>))
       = Inr (40, - 74)
   \<and> proofId sample_env honest_wrapper \<notin> verifiedProofs empty_state
   \<and> fst (zkGeoPoint sample_env honest_wrapper empty_state) = Inr (40, - 74)"
proof -
  let ?s1 = "\<lparr>log = [ProofVerify valid_proof, ZKGeoPointHash], verifiedProofs = {''valid''}\<rparr>"
  have a: "this_verify sample_env honest_wrapper empty_state = (Inr (), ?s1)"
    by (simp add: this_verify_miss sample_defs)
  have c: "claimedZKGeoPoint honest_wrapper = (40, - 74)"
    by (simp add: sample_defs)
  have m: "proofId sample_env honest_wrapper \<notin> verifiedProofs empty_state"
    by (simp add: sample_defs)
  show ?thesis
    using a c m
      zkGeoPoint_never_refails_after_verify [OF a,
        of "[CallZkGeoPoint tampered_wrapper, CallVerify mismatched_wrapper]"]
    by simp
qed

text \<open>
  C9. \<open>fromJSON\<close> returns what the engine's \<^verbatim>\<open>fromJSON\<close> returns and does nothing
  else: the engine's cryptographic check is not called, no claim is hashed, and the
  verified set is unchanged.
\<close>

theorem fromJSON_does_not_verify:
  "fst (fromJSON parse jsonProof s) = parse jsonProof
   \<and> log (snd (fromJSON parse jsonProof s)) = log s @ [ProofFromJSON]
   \<and> proof_verify_calls (log (snd (fromJSON parse jsonProof s))) = proof_verify_calls (log s)
   \<and> claim_binding_calls (log (snd (fromJSON parse jsonProof s))) = claim_binding_calls (log s)
   \<and> verifiedProofs (snd (fromJSON parse jsonProof s)) = verifiedProofs s"
  by (cases "parse jsonProof") (simp_all add: fromJSON_def bind_def emit_def ret_def throw_def
        proof_verify_calls_append claim_binding_calls_append)

text \<open>
  C10. For every instance, every environment and every state - so for every pair of an
  embedded and a recomputed commitment, equal or not - \<open>assertGeoPointIsTheClaimedOne\<close>
  returns normally: the guard negates the object returned by \<^verbatim>\<open>equals\<close>, an object is
  truthy, and the branch that throws is never taken.
\<close>

theorem assertGeoPointIsTheClaimedOne_never_throws:
  "js_not (JSObject (Field_equals embedded recomputed)) = False
   \<and> fst (assertGeoPointIsTheClaimedOne env this s) = Inr ()"
  by (simp add: assertGeoPointIsTheClaimedOne_eq js_not_def)

end
